theory Spec2Isabelle
  imports Complex_Main "HOL-Library.Sublist" "HOL-Library.Multiset"
begin

section \<open>Volume screener: a shallow embedding of \<open>volume_screener.py\<close>\<close>

text \<open>
  The script parses a comma-separated ticker list, downloads three months of daily bars
  for the whole list in one call, derives one metrics row per ticker
  (\<open>get_volume_data\<close>), sorts the rows by relative volume and colours the relative-volume
  cell (\<open>highlight_spike\<close>).

  Numbers. The cells of a pandas frame are IEEE doubles. They are modelled by exact
  rationals extended with the three special values that the script can meet or produce:
  \<open>NaN\<close> (a missing cell, the mean of nothing, \<open>0/0\<close>) and the two infinities (a
  division by zero of numpy scalars gives an infinity, never an exception). Rounding and
  the sign of zero are not modelled.
\<close>

subsection \<open>Numbers\<close>

datatype fl = NaN | NInf | PInf | Fin rat

fun fl_neg :: "fl \<Rightarrow> fl" where
  "fl_neg NaN = NaN"
| "fl_neg NInf = PInf"
| "fl_neg PInf = NInf"
| "fl_neg (Fin a) = Fin (- a)"

fun fl_add :: "fl \<Rightarrow> fl \<Rightarrow> fl" where
  "fl_add NaN y = NaN"
| "fl_add x NaN = NaN"
| "fl_add PInf NInf = NaN"
| "fl_add NInf PInf = NaN"
| "fl_add PInf y = PInf"
| "fl_add x PInf = PInf"
| "fl_add NInf y = NInf"
| "fl_add x NInf = NInf"
| "fl_add (Fin a) (Fin b) = Fin (a + b)"

definition fl_sub :: "fl \<Rightarrow> fl \<Rightarrow> fl" where
  "fl_sub x y = fl_add x (fl_neg y)"

text \<open>The sign of an infinite product or quotient: \<open>True\<close> is positive.\<close>

definition signed_inf :: "bool \<Rightarrow> fl" where
  "signed_inf pos = (if pos then PInf else NInf)"

fun fl_mul :: "fl \<Rightarrow> fl \<Rightarrow> fl" where
  "fl_mul NaN y = NaN"
| "fl_mul x NaN = NaN"
| "fl_mul PInf PInf = PInf"
| "fl_mul PInf NInf = NInf"
| "fl_mul NInf PInf = NInf"
| "fl_mul NInf NInf = PInf"
| "fl_mul PInf (Fin b) = (if b = 0 then NaN else signed_inf (0 < b))"
| "fl_mul NInf (Fin b) = (if b = 0 then NaN else signed_inf (b < 0))"
| "fl_mul (Fin a) PInf = (if a = 0 then NaN else signed_inf (0 < a))"
| "fl_mul (Fin a) NInf = (if a = 0 then NaN else signed_inf (a < 0))"
| "fl_mul (Fin a) (Fin b) = Fin (a * b)"

fun fl_div :: "fl \<Rightarrow> fl \<Rightarrow> fl" where
  "fl_div NaN y = NaN"
| "fl_div x NaN = NaN"
| "fl_div PInf (Fin b) = signed_inf (0 \<le> b)"
| "fl_div NInf (Fin b) = signed_inf (b < 0)"
| "fl_div (Fin a) (Fin b) =
     (if b = 0 then (if a = 0 then NaN else signed_inf (0 < a)) else Fin (a / b))"
| "fl_div (Fin a) y = Fin 0"
| "fl_div x y = NaN"

text \<open>\<open>fl_less x y\<close> is the comparison \<open>x < y\<close> of doubles: false as soon as one side is NaN.\<close>

fun fl_less :: "fl \<Rightarrow> fl \<Rightarrow> bool" where
  "fl_less NaN y = False"
| "fl_less x NaN = False"
| "fl_less x NInf = False"
| "fl_less NInf y = True"
| "fl_less PInf y = False"
| "fl_less x PInf = True"
| "fl_less (Fin a) (Fin b) = (a < b)"

definition fl_gt :: "fl \<Rightarrow> fl \<Rightarrow> bool" where
  "fl_gt x y = fl_less y x"

definition fl_le :: "fl \<Rightarrow> fl \<Rightarrow> bool" where
  "fl_le x y = (x \<noteq> NaN \<and> y \<noteq> NaN \<and> \<not> fl_less y x)"

subsection \<open>Exceptions\<close>

text \<open>
  The two exceptions that the indexing operations of the loop body can raise. The loop
  catches \<open>KeyError\<close> only.
\<close>

datatype exn = KeyError | IndexError

subsection \<open>Frames and the pandas operations the script uses\<close>

text \<open>
  A frame has column labels and rows in chronological order. A row gives a cell for each
  label; what it gives outside \<open>columns\<close> is never read (\<open>getitem_row\<close> raises first).
\<close>

record frame =
  columns :: "string list"
  rows :: "(string \<Rightarrow> fl) list"

text \<open>\<open>stock_df.dropna(how='all')\<close>: drop the rows all of whose cells are NaN.\<close>

definition dropna_all :: "frame \<Rightarrow> frame" where
  "dropna_all f = f\<lparr>rows := filter (\<lambda>r. \<not> list_all (\<lambda>c. r c = NaN) (columns f)) (rows f)\<rparr>"

text \<open>\<open>stock_df.empty\<close>: an axis of the frame has length 0.\<close>

definition frame_empty :: "frame \<Rightarrow> bool" where
  "frame_empty f = (rows f = [] \<or> columns f = [])"

text \<open>\<open>xs.iloc[i]\<close> for an integer \<open>i\<close>: negative positions count from the end.\<close>

definition iloc :: "'a list \<Rightarrow> int \<Rightarrow> exn + 'a" where
  "iloc xs i =
     (let pos = (if i < 0 then i + int (length xs) else i)
      in if pos < 0 \<or> int (length xs) \<le> pos then Inl IndexError else Inr (xs ! nat pos))"

text \<open>
  \<open>xs.iloc[a:b]\<close>: a bound below zero counts from the end, and both bounds are clamped
  to the sequence; a slice never raises.
\<close>

definition slice_bound :: "int \<Rightarrow> nat \<Rightarrow> nat" where
  "slice_bound i n = (if i < 0 then nat (max 0 (int n + i)) else min (nat i) n)"

definition iloc_slice :: "int \<Rightarrow> int \<Rightarrow> 'a list \<Rightarrow> 'a list" where
  "iloc_slice a b xs =
     (let n = length xs; s = slice_bound a n; e = slice_bound b n
      in take (e - s) (drop s xs))"

text \<open>\<open>row['label']\<close> and \<open>stock_df['label']\<close>: a label that is no column is a KeyError.\<close>

definition getitem_row :: "string list \<Rightarrow> (string \<Rightarrow> fl) \<Rightarrow> string \<Rightarrow> exn + fl" where
  "getitem_row cols r c = (if c \<in> set cols then Inr (r c) else Inl KeyError)"

definition getitem_col :: "frame \<Rightarrow> string \<Rightarrow> exn + fl list" where
  "getitem_col f c = (if c \<in> set (columns f) then Inr (map (\<lambda>r. r c) (rows f)) else Inl KeyError)"

text \<open>
  \<open>Series.mean()\<close> skips NaN: the sum of the cells that are not NaN over their count,
  and NaN when there is none.
\<close>

definition mean :: "fl list \<Rightarrow> fl" where
  "mean xs =
     (let vs = filter (\<lambda>x. x \<noteq> NaN) xs
      in if vs = [] then NaN else fl_div (foldl fl_add (Fin 0) vs) (Fin (of_nat (length vs))))"

subsection \<open>The download\<close>

text \<open>
  The script does two things with the frame that \<open>yf.download\<close> returns: it indexes it
  with a ticker (\<open>df[ticker]\<close>, when the list has more than one ticker) and it uses it
  whole as the ticker's frame (when the list has one). The download is modelled by what
  these two give: \<open>by_ticker\<close> is the sub-frame under a ticker, \<open>None\<close> where
  \<open>df[ticker]\<close> raises KeyError, and \<open>whole\<close> is the frame read with its own column labels.
\<close>

record download =
  whole :: frame
  by_ticker :: "string \<rightharpoonup> frame"

definition getitem_ticker :: "download \<Rightarrow> string \<Rightarrow> exn + frame" where
  "getitem_ticker df ticker = (case by_ticker df ticker of None \<Rightarrow> Inl KeyError | Some f \<Rightarrow> Inr f)"

subsection \<open>\<open>get_volume_data\<close>\<close>

record mrow =
  Ticker :: string
  Price :: fl
  Change :: fl
  Current_Vol :: fl
  Avg_Vol :: fl
  RVol :: fl

text \<open>Line 62: \<open>stock_df['Volume'].iloc[-21:-1].mean()\<close>, on the volume column.\<close>

definition avg_vol_20d :: "fl list \<Rightarrow> fl" where
  "avg_vol_20d vol = mean (iloc_slice (-21) (-1) vol)"

text \<open>Lines 65 to 68.\<close>

definition rvol_of :: "fl \<Rightarrow> fl \<Rightarrow> fl" where
  "rvol_of current_vol avg = (if fl_gt avg (Fin 0) then fl_div current_vol avg else Fin 0)"

text \<open>Line 72.\<close>

definition pct_change_of :: "fl \<Rightarrow> fl \<Rightarrow> fl" where
  "pct_change_of current_price prev_close =
     fl_mul (fl_div (fl_sub current_price prev_close) prev_close) (Fin 100)"

text \<open>
  The body of the \<open>try\<close> block for one ticker (lines 43 to 81), before the handler:
  \<open>Inl\<close> is a raised exception, \<open>Inr None\<close> the \<open>continue\<close> of line 53, and
  \<open>Inr (Some row)\<close> the dictionary appended to \<open>data\<close>.
\<close>

definition ticker_body :: "string list \<Rightarrow> download \<Rightarrow> string \<Rightarrow> exn + mrow option" where
  "ticker_body ticker_list df ticker =
     (case (if length ticker_list > 1 then getitem_ticker df ticker else Inr (whole df)) of
        Inl e \<Rightarrow> Inl e
      | Inr ticker_df \<Rightarrow>
          let stock_df = dropna_all ticker_df in
          if frame_empty stock_df then Inr None
          else
            (case iloc (rows stock_df) (-1) of Inl e \<Rightarrow> Inl e | Inr latest_day \<Rightarrow>
            (case getitem_row (columns stock_df) latest_day ''Volume'' of Inl e \<Rightarrow> Inl e | Inr current_vol \<Rightarrow>
            (case getitem_row (columns stock_df) latest_day ''Close'' of Inl e \<Rightarrow> Inl e | Inr current_price \<Rightarrow>
            (case getitem_col stock_df ''Volume'' of Inl e \<Rightarrow> Inl e | Inr vol \<Rightarrow>
              let avg = avg_vol_20d vol;
                  rvol = rvol_of current_vol avg in
              (case getitem_col stock_df ''Close'' of Inl e \<Rightarrow> Inl e | Inr close \<Rightarrow>
              (case iloc close (-2) of Inl e \<Rightarrow> Inl e | Inr prev_close \<Rightarrow>
                Inr (Some \<lparr>Ticker = ticker, Price = current_price,
                           Change = pct_change_of current_price prev_close,
                           Current_Vol = current_vol, Avg_Vol = avg, RVol = rvol\<rparr>))))))))"

text \<open>
  The \<open>for\<close> loop of lines 41 to 85 over the tickers still to do, with \<open>data\<close> the rows
  appended so far. A KeyError is caught and the loop goes on; any other exception leaves
  the loop and the function.
\<close>

fun for_tickers :: "string list \<Rightarrow> download \<Rightarrow> mrow list \<Rightarrow> string list \<Rightarrow> exn + mrow list" where
  "for_tickers ticker_list df data [] = Inr data"
| "for_tickers ticker_list df data (ticker # rest) =
     (case ticker_body ticker_list df ticker of
        Inl KeyError \<Rightarrow> for_tickers ticker_list df data rest
      | Inl e \<Rightarrow> Inl e
      | Inr None \<Rightarrow> for_tickers ticker_list df data rest
      | Inr (Some row) \<Rightarrow> for_tickers ticker_list df (data @ [row]) rest)"

text \<open>
  \<open>get_volume_data\<close>. The call of \<open>yf.download\<close> is the parameter \<open>fetch\<close>: it gives
  \<open>Inl msg\<close> when the call raises an exception that prints as \<open>msg\<close>, and the download
  otherwise. The result is the list of messages shown with \<open>st.error\<close> and the rows of
  the returned frame, or the exception that left the function. The cache decorator is not
  modelled: this is one uncached call.
\<close>

definition get_volume_data ::
    "(string list \<Rightarrow> string + download) \<Rightarrow> string list \<Rightarrow> exn + (string list \<times> mrow list)" where
  "get_volume_data fetch ticker_list =
     (case fetch ticker_list of
        Inl msg \<Rightarrow> Inr ([''Error fetching data: '' @ msg], [])
      | Inr df \<Rightarrow>
          (case for_tickers ticker_list df [] ticker_list of
             Inl e \<Rightarrow> Inl e
           | Inr data \<Rightarrow> Inr ([], data)))"

subsection \<open>The main script: ticker parsing, sorting and highlighting\<close>

text \<open>
  Line 23: \<open>[x.strip().upper() for x in ticker_input.split(",") if x.strip()]\<close>.
  The text model is ASCII: a \<open>char\<close> stands for a code point below 128. There, the
  white space that \<open>strip\<close> removes is the code points 9 to 13 and 28 to 32, and
  \<open>upper\<close> changes the letters \<open>a\<close> to \<open>z\<close> only.
\<close>

definition ascii_text :: "string \<Rightarrow> bool" where
  "ascii_text s = list_all (\<lambda>c. (of_char c :: nat) < 128) s"

definition is_space :: "char \<Rightarrow> bool" where
  "is_space c = (let n = (of_char c :: nat) in (9 \<le> n \<and> n \<le> 13) \<or> (28 \<le> n \<and> n \<le> 32))"

definition str_strip :: "string \<Rightarrow> string" where
  "str_strip s = rev (dropWhile is_space (rev (dropWhile is_space s)))"

definition char_upper :: "char \<Rightarrow> char" where
  "char_upper c = (let n = (of_char c :: nat) in if 97 \<le> n \<and> n \<le> 122 then char_of (n - 32) else c)"

definition str_upper :: "string \<Rightarrow> string" where
  "str_upper s = map char_upper s"

text \<open>\<open>s.split(sep)\<close> for a one-character separator: always at least one piece.\<close>

fun str_split :: "char \<Rightarrow> string \<Rightarrow> string list" where
  "str_split sep [] = [[]]"
| "str_split sep (c # cs) =
     (if c = sep then [] # str_split sep cs
      else (case str_split sep cs of [] \<Rightarrow> [[c]] | p # ps \<Rightarrow> (c # p) # ps))"

definition tickers :: "string \<Rightarrow> string list" where
  "tickers ticker_input =
     map (\<lambda>x. str_upper (str_strip x))
       (filter (\<lambda>x. str_strip x \<noteq> []) (str_split (CHR '','') ticker_input))"

text \<open>
  \<open>sep.join(pieces)\<close>, the inverse of \<open>split\<close>; it is used to say what the
  comma-separated entries of a string are.
\<close>

fun str_join :: "char \<Rightarrow> string list \<Rightarrow> string" where
  "str_join sep [] = []"
| "str_join sep [p] = p"
| "str_join sep (p # ps) = p @ sep # str_join sep ps"

text \<open>
  Lines 103 to 106, with the slider value \<open>vol_threshold\<close> as a parameter (the slider
  of line 26 gives a number between 1.0 and 5.0).
\<close>

definition highlight_color :: "rat \<Rightarrow> fl \<Rightarrow> string" where
  "highlight_color vol_threshold val =
     (let color = (if fl_gt val (Fin vol_threshold) then ''lightgreen'' else ''white'')
      in if fl_gt val (Fin (vol_threshold * 2)) then ''#ffcccb'' else color)"

definition highlight_spike :: "rat \<Rightarrow> fl \<Rightarrow> string" where
  "highlight_spike vol_threshold val =
     ''background-color: '' @ highlight_color vol_threshold val @ ''; color: black''"

text \<open>The three highlight tiers are the three styles that \<open>highlight_spike\<close> can return.\<close>

datatype tier = Normal | Elevated | Spike

fun tier_style :: "tier \<Rightarrow> string" where
  "tier_style Normal = ''background-color: white; color: black''"
| "tier_style Elevated = ''background-color: lightgreen; color: black''"
| "tier_style Spike = ''background-color: #ffcccb; color: black''"


subsection \<open>Notions used to state the properties\<close>

text \<open>
  The frame that the loop body selects for a ticker (lines 44 to 47), \<open>None\<close> where the
  selection raises KeyError.
\<close>

definition selected :: "string list \<Rightarrow> download \<Rightarrow> string \<Rightarrow> frame option" where
  "selected ticker_list df ticker =
     (if length ticker_list > 1 then by_ticker df ticker else Some (whole df))"

text \<open>
  A ticker whose data is absent or malformed in the download, or whose series is empty
  after cleaning: \<open>df[ticker]\<close> has no such key, or the ticker's frame is empty once the
  all-NaN rows are dropped, or it lacks the \<open>Volume\<close> or the \<open>Close\<close> column.
\<close>

definition skipped :: "string list \<Rightarrow> download \<Rightarrow> string \<Rightarrow> bool" where
  "skipped ticker_list df ticker =
     (case selected ticker_list df ticker of
        None \<Rightarrow> True
      | Some f \<Rightarrow> frame_empty (dropna_all f)
                 \<or> ''Volume'' \<notin> set (columns f) \<or> ''Close'' \<notin> set (columns f))"




text \<open>The volume column of a ticker's cleaned frame, oldest bar first.\<close>

definition volumes :: "frame \<Rightarrow> fl list" where
  "volumes f = map (\<lambda>r. r ''Volume'') (rows (dropna_all f))"

subsection \<open>Example data\<close>

text \<open>
  A daily bar with the five columns of a download (every price column holds \<open>price\<close>),
  a frame of bars, and a download of seven tickers: \<open>AAA\<close> has 20 bars of volume
  2,000,000 and a latest bar of volume 5,000,000; \<open>BBB\<close> has only all-NaN rows;
  \<open>CCC\<close> has three bars, and \<open>FFF\<close> the same three; \<open>DDD\<close> has a single bar;
  \<open>ZZZ\<close> has three bars and traded nothing before the latest one; \<open>GGG\<close> has three
  bars, and the volume of the latest one is missing. \<open>EEE\<close> is not in the download. The
  rows are those that the loop body computes from these frames.
\<close>

definition ohlcv :: "string list" where
  "ohlcv = [''Open'', ''High'', ''Low'', ''Close'', ''Volume'']"

definition bar :: "rat \<Rightarrow> rat \<Rightarrow> string \<Rightarrow> fl" where
  "bar price volume c = (if c = ''Volume'' then Fin volume else Fin price)"

definition bars :: "(string \<Rightarrow> fl) list \<Rightarrow> frame" where
  "bars rs = \<lparr>columns = ohlcv, rows = rs\<rparr>"

definition aaa_frame :: frame where
  "aaa_frame = bars (replicate 20 (bar 100 2000000) @ [bar 110 5000000])"

definition bbb_frame :: frame where
  "bbb_frame = bars [\<lambda>c. NaN, \<lambda>c. NaN]"

definition ccc_frame :: frame where
  "ccc_frame = bars [bar 40 1000, bar 40 3000, bar 42 4000]"

definition ddd_frame :: frame where
  "ddd_frame = bars [bar 7 900]"

definition zzz_frame :: frame where
  "zzz_frame = bars [bar 50 0, bar 50 0, bar 51 700]"

definition ggg_frame :: frame where
  "ggg_frame = bars [bar 10 100, bar 10 100, (bar 12 0)(''Volume'' := NaN)]"

definition example_download :: download where
  "example_download =
     \<lparr>whole = bars [],
      by_ticker = [''AAA'' \<mapsto> aaa_frame, ''BBB'' \<mapsto> bbb_frame, ''CCC'' \<mapsto> ccc_frame,
                   ''DDD'' \<mapsto> ddd_frame, ''FFF'' \<mapsto> ccc_frame, ''GGG'' \<mapsto> ggg_frame,
                   ''ZZZ'' \<mapsto> zzz_frame]\<rparr>"

definition aaa_row :: mrow where
  "aaa_row = \<lparr>Ticker = ''AAA'', Price = Fin 110, Change = Fin 10, Current_Vol = Fin 5000000,
               Avg_Vol = Fin 2000000, RVol = Fin (5 / 2)\<rparr>"




definition zzz_row :: mrow where
  "zzz_row = \<lparr>Ticker = ''ZZZ'', Price = Fin 51, Change = Fin 2, Current_Vol = Fin 700,
               Avg_Vol = Fin 0, RVol = Fin 0\<rparr>"

section \<open>Auxiliary facts\<close>

subsection \<open>Slices and means\<close>

lemma slice_window:
  "iloc_slice (-21) (-1) (prior @ [x]) = drop (length prior - 20) prior"
  by (auto simp: iloc_slice_def slice_bound_def Let_def max_def nat_diff_distrib)

lemma foldl_fl_add_Fin:
  "foldl fl_add (Fin a) (map Fin vs) = Fin (a + sum_list vs)"
  by (induction vs arbitrary: a) (simp_all add: add.assoc)

lemma filter_map_Fin: "filter (\<lambda>x. x \<noteq> NaN) (map Fin vs) = map Fin vs"
  by (induction vs) simp_all

lemma mean_Fin:
  "mean (map Fin vs) = (if vs = [] then NaN else Fin (sum_list vs / of_nat (length vs)))"
  by (simp add: mean_def filter_map_Fin foldl_fl_add_Fin)

lemma avg_vol_20d_prior:
  "avg_vol_20d (map Fin prior @ [x]) =
     (if prior = [] then NaN
      else Fin (sum_list (drop (length prior - 20) prior) / of_nat (min 20 (length prior))))"
proof -
  have "iloc_slice (-21) (-1) (map Fin prior @ [x]) = map Fin (drop (length prior - 20) prior)"
    using slice_window [of "map Fin prior" x] by (simp add: drop_map)
  then show ?thesis
    by (auto simp: avg_vol_20d_def mean_Fin min_def)
qed

lemma iloc_last: "xs \<noteq> [] \<Longrightarrow> iloc xs (-1) = Inr (last xs)"
  by (cases xs rule: rev_cases) (auto simp: iloc_def Let_def nth_append)

lemma iloc_prev: "2 \<le> length xs \<Longrightarrow> iloc xs (-2) = Inr (xs ! (length xs - 2))"
  by (auto simp: iloc_def Let_def nat_diff_distrib)

lemma iloc_prev_single: "iloc [l] (-2) = Inl IndexError"
  by (auto simp: iloc_def Let_def)

subsection \<open>The loop body and the loop\<close>

text \<open>The loop body, read off the selected frame.\<close>

lemma ticker_body_selected:
  "ticker_body tks df t =
     (case selected tks df t of None \<Rightarrow> Inl KeyError
      | Some f \<Rightarrow>
          let stock_df = dropna_all f in
          if frame_empty stock_df then Inr None
          else if ''Volume'' \<notin> set (columns f) \<or> ''Close'' \<notin> set (columns f) then Inl KeyError
          else (case iloc (map (\<lambda>r. r ''Close'') (rows stock_df)) (-2) of
                  Inl e \<Rightarrow> Inl e
                | Inr prev_close \<Rightarrow>
                    let latest_day = last (rows stock_df);
                        avg = avg_vol_20d (volumes f) in
                    Inr (Some \<lparr>Ticker = t, Price = latest_day ''Close'',
                           Change = pct_change_of (latest_day ''Close'') prev_close,
                           Current_Vol = latest_day ''Volume'', Avg_Vol = avg,
                           RVol = rvol_of (latest_day ''Volume'') avg\<rparr>)))"
  by (auto simp: ticker_body_def selected_def getitem_ticker_def Let_def frame_empty_def
        iloc_last getitem_row_def getitem_col_def dropna_all_def volumes_def
      split: option.splits sum.splits)

lemma ticker_body_row:
  "ticker_body tks df t = Inr (Some row) \<Longrightarrow>
     Ticker row = t \<and> RVol row = rvol_of (Current_Vol row) (Avg_Vol row)"
  by (auto simp: ticker_body_selected Let_def split: option.splits if_splits sum.splits)

lemma skipped_outcome:
  "skipped tks df t \<Longrightarrow> ticker_body tks df t = Inl KeyError \<or> ticker_body tks df t = Inr None"
  by (auto simp: ticker_body_selected skipped_def Let_def split: option.splits if_splits)

lemma for_tickers_skip:
  "ticker_body tks df t = Inl KeyError \<or> ticker_body tks df t = Inr None \<Longrightarrow>
     for_tickers tks df data (t # rest) = for_tickers tks df data rest"
  by auto

lemma for_tickers_append:
  "for_tickers tks df data (xs @ ys) =
     (case for_tickers tks df data xs of Inl e \<Rightarrow> Inl e | Inr d \<Rightarrow> for_tickers tks df d ys)"
  by (induction xs arbitrary: data) (auto split: sum.splits exn.splits option.splits)

lemma for_tickers_filter:
  "for_tickers tks df data (filter (\<lambda>t. \<not> skipped tks df t) ts) = for_tickers tks df data ts"
proof (induction ts arbitrary: data)
  case Nil
  show ?case by simp
next
  case (Cons t ts)
  show ?case
  proof (cases "skipped tks df t")
    case True
    then show ?thesis
      using Cons.IH for_tickers_skip [OF skipped_outcome [OF True]] by simp
  next
    case False
    then show ?thesis
      using Cons.IH by (simp split: sum.splits exn.splits option.splits)
  qed
qed

text \<open>
  What the loop appends: one row at most for each ticker it goes through, in the order of
  the tickers, each the row that the body computes for its ticker.
\<close>

lemma for_tickers_rows:
  "for_tickers tks df data ts = Inr out \<Longrightarrow>
     \<exists>new. out = data @ new \<and> subseq (map Ticker new) ts
       \<and> (\<forall>row \<in> set new. \<exists>t \<in> set ts. ticker_body tks df t = Inr (Some row))"
proof (induction ts arbitrary: data)
  case Nil
  then show ?case by simp
next
  case (Cons t ts)
  show ?case
  proof (cases "ticker_body tks df t")
    case (Inl e)
    with Cons.prems have "for_tickers tks df data ts = Inr out"
      by (cases e) simp_all
    from Cons.IH [OF this] show ?thesis
      by auto
  next
    case (Inr r)
    show ?thesis
    proof (cases r)
      case None
      with Inr Cons.prems have "for_tickers tks df data ts = Inr out" by simp
      from Cons.IH [OF this] show ?thesis
        by auto
    next
      case (Some row)
      with Inr Cons.prems have "for_tickers tks df (data @ [row]) ts = Inr out" by simp
      from Cons.IH [OF this] obtain new where
        new: "out = (data @ [row]) @ new" "subseq (map Ticker new) ts"
          "\<forall>r \<in> set new. \<exists>t \<in> set ts. ticker_body tks df t = Inr (Some r)"
        by blast
      have "Ticker row = t"
        using Inr Some ticker_body_row by blast
      with new Inr Some show ?thesis
        by (intro exI [of _ "row # new"]) auto
    qed
  qed
qed

text \<open>
  When the selected frame has both columns and at least two bars after cleaning, the body
  emits a row; its average is the one of line 62 on the cleaned volume column.
\<close>

lemma ticker_body_emits:
  assumes sel: "selected tks df t = Some f"
    and cols: "''Volume'' \<in> set (columns f)" "''Close'' \<in> set (columns f)"
    and len: "2 \<le> length (volumes f)"
  shows "\<exists>row. ticker_body tks df t = Inr (Some row) \<and> Avg_Vol row = avg_vol_20d (volumes f)
           \<and> Current_Vol row = last (volumes f)"
proof -
  have n: "2 \<le> length (rows (dropna_all f))"
    using len by (simp add: volumes_def)
  then have ne: "\<not> frame_empty (dropna_all f)"
    using cols by (auto simp: frame_empty_def dropna_all_def)
  have "rows (dropna_all f) \<noteq> []"
    using n by auto
  then have l: "last (volumes f) = last (rows (dropna_all f)) ''Volume''"
    by (simp add: volumes_def last_map)
  from n have "iloc (map (\<lambda>r. r ''Close'') (rows (dropna_all f))) (-2) =
      Inr (map (\<lambda>r. r ''Close'') (rows (dropna_all f)) ! (length (rows (dropna_all f)) - 2))"
    using iloc_prev [of "map (\<lambda>r. r ''Close'') (rows (dropna_all f))"] by simp
  then show ?thesis
    using sel cols ne l by (simp add: ticker_body_selected Let_def)
qed

subsection \<open>The example data\<close>

lemma volumes_aaa: "volumes aaa_frame = map Fin (replicate 20 2000000) @ [Fin 5000000]"
  by (simp add: volumes_def aaa_frame_def dropna_all_def bars_def ohlcv_def bar_def)

lemma selected_aaa: "selected [''AAA'', ''BBB''] example_download ''AAA'' = Some aaa_frame"
  by (simp add: selected_def example_download_def)

lemma columns_dropna: "columns (dropna_all f) = columns f"
  by (simp add: dropna_all_def)

lemma rvol_of_no_average: "avg = NaN \<or> avg = Fin 0 \<Longrightarrow> rvol_of current_vol avg = Fin 0"
  by (auto simp: rvol_of_def fl_gt_def)

lemma volumes_ccc: "volumes ccc_frame = map Fin [1000, 3000] @ [Fin 4000]"
  by (simp add: volumes_def ccc_frame_def dropna_all_def bars_def ohlcv_def bar_def)

lemma volumes_ddd: "volumes ddd_frame = map Fin [] @ [Fin 900]"
  by (simp add: volumes_def ddd_frame_def dropna_all_def bars_def ohlcv_def bar_def)

lemma volumes_zzz: "volumes zzz_frame = map Fin [0, 0] @ [Fin 700]"
  by (simp add: volumes_def zzz_frame_def dropna_all_def bars_def ohlcv_def bar_def)

lemma example_selected:
  "1 < length tks \<Longrightarrow> selected tks example_download ''AAA'' = Some aaa_frame"
  "1 < length tks \<Longrightarrow> selected tks example_download ''BBB'' = Some bbb_frame"
  "1 < length tks \<Longrightarrow> selected tks example_download ''CCC'' = Some ccc_frame"
  "1 < length tks \<Longrightarrow> selected tks example_download ''DDD'' = Some ddd_frame"
  "1 < length tks \<Longrightarrow> selected tks example_download ''ZZZ'' = Some zzz_frame"
  "1 < length tks \<Longrightarrow> selected tks example_download ''EEE'' = None"
  "1 < length tks \<Longrightarrow> selected tks example_download ''FFF'' = Some ccc_frame"
  "1 < length tks \<Longrightarrow> selected tks example_download ''GGG'' = Some ggg_frame"
  by (simp_all add: selected_def example_download_def)

lemma example_columns:
  "columns aaa_frame = ohlcv" "columns bbb_frame = ohlcv" "columns ccc_frame = ohlcv"
  "columns ddd_frame = ohlcv" "columns zzz_frame = ohlcv" "columns ggg_frame = ohlcv"
  by (simp_all add: aaa_frame_def bbb_frame_def ccc_frame_def ddd_frame_def zzz_frame_def
      ggg_frame_def bars_def)

lemma ohlcv_has: "''Volume'' \<in> set ohlcv" "''Close'' \<in> set ohlcv" "ohlcv \<noteq> []"
  by (simp_all add: ohlcv_def)

lemma rows_clean_aaa:
  "rows (dropna_all aaa_frame) = replicate 20 (bar 100 2000000) @ [bar 110 5000000]"
  by (simp add: aaa_frame_def dropna_all_def bars_def ohlcv_def bar_def)

lemma body_aaa:
  assumes "1 < length tks"
  shows "ticker_body tks example_download ''AAA'' = Inr (Some aaa_row)"
proof -
  have avg: "avg_vol_20d (volumes aaa_frame) = Fin 2000000"
    using avg_vol_20d_prior [of "replicate 20 2000000" "Fin 5000000"]
    by (simp add: volumes_aaa sum_list_replicate)
  have prev: "iloc (replicate 20 (Fin 100) @ [Fin 110]) (-2) = Inr (Fin 100)"
    by (simp add: iloc_prev nth_append)
  show ?thesis
    using assms
    by (simp add: ticker_body_selected example_selected example_columns columns_dropna ohlcv_has Let_def
        frame_empty_def rows_clean_aaa avg prev bar_def rvol_of_def fl_gt_def pct_change_of_def
        fl_sub_def aaa_row_def)
qed

lemma body_zzz:
  assumes "1 < length tks"
  shows "ticker_body tks example_download ''ZZZ'' = Inr (Some zzz_row)"
proof -
  have avg: "avg_vol_20d (volumes zzz_frame) = Fin 0"
    using avg_vol_20d_prior [of "[0, 0]" "Fin 700"] by (simp add: volumes_zzz)
  have r: "rows (dropna_all zzz_frame) = [bar 50 0, bar 50 0, bar 51 700]"
    by (simp add: zzz_frame_def dropna_all_def bars_def ohlcv_def bar_def)
  show ?thesis
    using assms
    by (simp add: ticker_body_selected example_selected example_columns columns_dropna ohlcv_has Let_def
        frame_empty_def r avg iloc_def bar_def rvol_of_def fl_gt_def pct_change_of_def
        fl_sub_def zzz_row_def)
qed




lemma body_bbb:
  assumes "1 < length tks"
  shows "ticker_body tks example_download ''BBB'' = Inr None"
proof -
  have r: "rows (dropna_all bbb_frame) = []"
    by (simp add: bbb_frame_def dropna_all_def bars_def ohlcv_def)
  show ?thesis
    using assms
    by (simp add: ticker_body_selected example_selected Let_def frame_empty_def r)
qed

lemma body_eee:
  assumes "1 < length tks"
  shows "ticker_body tks example_download ''EEE'' = Inl KeyError"
  using assms by (simp add: ticker_body_selected example_selected)

lemma body_ddd:
  assumes "1 < length tks"
  shows "ticker_body tks example_download ''DDD'' = Inl IndexError"
proof -
  have r: "rows (dropna_all ddd_frame) = [bar 7 900]"
    by (simp add: ddd_frame_def dropna_all_def bars_def ohlcv_def bar_def)
  show ?thesis
    using assms
    by (simp add: ticker_body_selected example_selected example_columns columns_dropna ohlcv_has Let_def
        frame_empty_def r iloc_prev_single)
qed

text \<open>
  A batch over the example download: \<open>BBB\<close> and \<open>EEE\<close> are skipped, and the row of
  \<open>AAA\<close> has the relative volume 2.5.
\<close>

lemma example_batch:
  "get_volume_data (\<lambda>ticker_list. Inr example_download) [''AAA'', ''BBB'', ''EEE'', ''ZZZ''] =
     Inr ([], [aaa_row, zzz_row])"
  by (simp add: get_volume_data_def body_aaa body_bbb body_eee body_zzz)

section \<open>The properties\<close>

subsection \<open>The 20-day average\<close>

text \<open>
  C1. For a bar series with at least 21 bars, the 20-day average volume of the emitted row
  is the arithmetic mean of exactly the 20 bars immediately before the latest bar, and the
  latest bar is excluded from it.

  The cleaned volume column is written \<open>map Fin prior @ [latest]\<close>: the bars before the
  latest one have the volumes \<open>prior\<close>, which are numbers as the volume of a bar is, and
  there are at least 20 of them. The average is the sum of the last 20 elements of
  \<open>prior\<close> over 20, whatever the cell \<open>latest\<close> is.
\<close>

theorem avg_vol_20d_window:
  assumes "selected tks df t = Some f"
    and "''Volume'' \<in> set (columns f)" and "''Close'' \<in> set (columns f)"
    and "volumes f = map Fin prior @ [latest]"
    and "20 \<le> length prior"
  shows "\<exists>row. ticker_body tks df t = Inr (Some row)
           \<and> Avg_Vol row = Fin (sum_list (drop (length prior - 20) prior) / 20)
           \<and> length (drop (length prior - 20) prior) = 20"
proof -
  have "2 \<le> length (volumes f)"
    using assms(4,5) by simp
  from ticker_body_emits [OF assms(1-3) this] obtain row where
    row: "ticker_body tks df t = Inr (Some row)" "Avg_Vol row = avg_vol_20d (volumes f)"
    by blast
  have "prior \<noteq> []"
    using assms(5) by auto
  then have "avg_vol_20d (volumes f) = Fin (sum_list (drop (length prior - 20) prior) / 20)"
    using assms(4,5) by (simp add: avg_vol_20d_prior min_def)
  with row assms(5) show ?thesis
    by auto
qed

theorem avg_vol_20d_window_witness:
  "selected [''AAA'', ''BBB''] example_download ''AAA'' = Some aaa_frame
   \<and> volumes aaa_frame = map Fin (replicate 20 2000000) @ [Fin 5000000]
   \<and> (\<exists>row. ticker_body [''AAA'', ''BBB''] example_download ''AAA'' = Inr (Some row)
          \<and> Avg_Vol row = Fin 2000000)"
proof -
  have c1: "''Volume'' \<in> set (columns aaa_frame)" and c2: "''Close'' \<in> set (columns aaa_frame)"
    by (simp_all add: aaa_frame_def bars_def ohlcv_def)
  have len: "20 \<le> length (replicate 20 (2000000::rat))"
    by simp
  show ?thesis
    using selected_aaa volumes_aaa avg_vol_20d_window [OF selected_aaa c1 c2 volumes_aaa len]
    by (simp add: sum_list_replicate)
qed

text \<open>
  C7. For a non-empty cleaned series with fewer than 20 bars before the latest one, the
  20-day average is the mean over all the prior bars; with no prior bar the average is
  undefined (NaN) and the relative volume computed from it is 0.

  With no prior bar the values are those of lines 62 to 68; line 71 then raises (see C6),
  so no row carries them.
\<close>

theorem avg_vol_short_history:
  assumes "selected tks df t = Some f"
    and "''Volume'' \<in> set (columns f)" and "''Close'' \<in> set (columns f)"
    and "volumes f = map Fin prior @ [latest]"
    and "length prior < 20"
  shows "(prior \<noteq> [] \<longrightarrow>
            (\<exists>row. ticker_body tks df t = Inr (Some row)
               \<and> Avg_Vol row = Fin (sum_list prior / of_nat (length prior))))
       \<and> (prior = [] \<longrightarrow>
            avg_vol_20d (volumes f) = NaN \<and> rvol_of latest (avg_vol_20d (volumes f)) = Fin 0)"
proof (intro conjI impI)
  assume ne: "prior \<noteq> []"
  then have "2 \<le> length (volumes f)"
    using assms(4) by (cases prior) simp_all
  from ticker_body_emits [OF assms(1-3) this] obtain row where
    row: "ticker_body tks df t = Inr (Some row)" "Avg_Vol row = avg_vol_20d (volumes f)"
    by blast
  have "avg_vol_20d (volumes f) = Fin (sum_list prior / of_nat (length prior))"
    using ne assms(4,5) by (simp add: avg_vol_20d_prior min_def)
  with row show "\<exists>row. ticker_body tks df t = Inr (Some row)
      \<and> Avg_Vol row = Fin (sum_list prior / of_nat (length prior))"
    by auto
next
  assume e: "prior = []"
  then show "avg_vol_20d (volumes f) = NaN"
    using assms(4) avg_vol_20d_prior [of prior latest] by simp
  then show "rvol_of latest (avg_vol_20d (volumes f)) = Fin 0"
    by (simp add: rvol_of_no_average)
qed

theorem avg_vol_short_history_witness:
  "(\<exists>row. ticker_body [''CCC'', ''DDD''] example_download ''CCC'' = Inr (Some row)
       \<and> Avg_Vol row = Fin 2000)
   \<and> avg_vol_20d (volumes ddd_frame) = NaN
   \<and> rvol_of (Fin 900) (avg_vol_20d (volumes ddd_frame)) = Fin 0"
proof -
  have l: "1 < length [''CCC'', ''DDD'']"
    by simp
  have a: "length [1000, 3000 :: rat] < 20" and b: "length ([] :: rat list) < 20"
    by simp_all
  have cc: "''Volume'' \<in> set (columns ccc_frame)" "''Close'' \<in> set (columns ccc_frame)"
    and cd: "''Volume'' \<in> set (columns ddd_frame)" "''Close'' \<in> set (columns ddd_frame)"
    by (simp_all add: example_columns ohlcv_has)
  show ?thesis
    using avg_vol_short_history [OF example_selected(3) [OF l] cc volumes_ccc a]
      avg_vol_short_history [OF example_selected(4) [OF l] cd volumes_ddd b]
    by (simp add: rvol_of_no_average)
qed

subsection \<open>The relative volume\<close>

text \<open>
  C2. When the 20-day average is zero or undefined (NaN), the relative volume is 0: the
  division of line 66 is not taken, and every row of the output whose average is zero or
  NaN has the relative volume 0.
\<close>

theorem rvol_zero_without_average:
  "(avg = NaN \<or> avg = Fin 0 \<longrightarrow> rvol_of current_vol avg = Fin 0)
   \<and> (get_volume_data fetch tks = Inr (msgs, data) \<longrightarrow>
        (\<forall>row \<in> set data. Avg_Vol row = NaN \<or> Avg_Vol row = Fin 0 \<longrightarrow> RVol row = Fin 0))"
proof (intro conjI impI ballI)
  assume "avg = NaN \<or> avg = Fin 0"
  then show "rvol_of current_vol avg = Fin 0"
    by (rule rvol_of_no_average)
next
  fix row
  assume out: "get_volume_data fetch tks = Inr (msgs, data)"
    and row: "row \<in> set data" and avg: "Avg_Vol row = NaN \<or> Avg_Vol row = Fin 0"
  show "RVol row = Fin 0"
  proof (cases "fetch tks")
    case (Inl msg)
    with out row show ?thesis
      by (auto simp: get_volume_data_def)
  next
    case (Inr df)
    with out have "for_tickers tks df [] tks = Inr data"
      by (auto simp: get_volume_data_def split: sum.splits)
    from for_tickers_rows [OF this] row obtain t where "ticker_body tks df t = Inr (Some row)"
      by auto
    then have "RVol row = rvol_of (Current_Vol row) (Avg_Vol row)"
      by (simp add: ticker_body_row)
    with avg show ?thesis
      by (simp add: rvol_of_no_average)
  qed
qed

theorem rvol_zero_without_average_witness:
  "rvol_of (Fin 700) (Fin 0) = Fin 0 \<and> Avg_Vol zzz_row = Fin 0 \<and> RVol zzz_row = Fin 0"
proof -
  have "Avg_Vol zzz_row = Fin 0"
    by (simp add: zzz_row_def)
  then show ?thesis
    using example_batch
      rvol_zero_without_average [of "Fin 0" "Fin 700" "\<lambda>ticker_list. Inr example_download"
        "[''AAA'', ''BBB'', ''EEE'', ''ZZZ'']" "[]" "[aaa_row, zzz_row]"]
    by simp
qed

subsection \<open>Failures\<close>

text \<open>
  C6. A cleaned series of exactly one bar has no previous close. The claim is that its
  row is still emitted; the code raises IndexError at line 71, which the handler of
  line 83 does not catch, so \<open>get_volume_data\<close> raises: no row is returned for this
  ticker nor for any other of the batch.
\<close>

theorem single_bar_raises:
  "ticker_body [''DDD''] \<lparr>whole = ddd_frame, by_ticker = Map.empty\<rparr> ''DDD'' = Inl IndexError
   \<and> get_volume_data (\<lambda>ticker_list. Inr \<lparr>whole = ddd_frame, by_ticker = Map.empty\<rparr>) [''DDD'']
       = Inl IndexError
   \<and> get_volume_data (\<lambda>ticker_list. Inr example_download) [''AAA'', ''DDD''] = Inl IndexError"
proof -
  have r: "rows (dropna_all ddd_frame) = [bar 7 900]"
    by (simp add: ddd_frame_def dropna_all_def bars_def ohlcv_def bar_def)
  have one: "ticker_body [''DDD''] \<lparr>whole = ddd_frame, by_ticker = Map.empty\<rparr> ''DDD'' = Inl IndexError"
    by (simp add: ticker_body_selected selected_def example_columns columns_dropna ohlcv_has Let_def
        frame_empty_def r iloc_prev_single)
  show ?thesis
    by (simp add: one get_volume_data_def body_aaa body_ddd)
qed

text \<open>
  C8. When the download itself raises, \<open>get_volume_data\<close> shows the error message and
  returns an empty frame: no row for any ticker, and no exception.
\<close>

theorem fetch_failure_gives_no_rows:
  assumes "fetch tks = Inl msg"
  shows "get_volume_data fetch tks = Inr ([''Error fetching data: '' @ msg], [])"
  using assms by (simp add: get_volume_data_def)

theorem fetch_failure_gives_no_rows_witness:
  "get_volume_data (\<lambda>ticker_list. Inl ''connection refused'') [''AAA'', ''BBB'']
     = Inr ([''Error fetching data: connection refused''], [])"
  using fetch_failure_gives_no_rows
    [of "\<lambda>ticker_list. Inl ''connection refused''" "[''AAA'', ''BBB'']" "''connection refused''"]
  by simp

subsection \<open>The rows of the output\<close>

text \<open>
  C10. Every row of the output has the ticker of an element of the input list, and each
  element of the list contributes at most one row: the tickers of the rows are a
  subsequence of the input list, so a list without duplicates gives rows with different
  tickers.
\<close>

theorem rows_from_input_tickers:
  assumes "get_volume_data fetch tks = Inr (msgs, data)"
  shows "(\<forall>row \<in> set data. Ticker row \<in> set tks)
       \<and> subseq (map Ticker data) tks
       \<and> (distinct tks \<longrightarrow> distinct (map Ticker data))"
proof -
  have s: "subseq (map Ticker data) tks"
  proof (cases "fetch tks")
    case (Inl msg)
    with assms show ?thesis
      by (auto simp: get_volume_data_def)
  next
    case (Inr df)
    with assms have "for_tickers tks df [] tks = Inr data"
      by (auto simp: get_volume_data_def split: sum.splits)
    from for_tickers_rows [OF this] show ?thesis
      by auto
  qed
  then have m: "map Ticker data \<in> set (subseqs tks)"
    by simp
  have mem: "Ticker row \<in> set tks" if "row \<in> set data" for row
  proof -
    from that have "Ticker row \<in> set (map Ticker data)"
      by simp
    from list_emb_set [OF s this] show ?thesis
      by auto
  qed
  have "distinct (map Ticker data)" if "distinct tks"
    using m that by (rule subseqs_distinctD)
  with s mem show ?thesis
    by blast
qed

theorem rows_from_input_tickers_witness:
  "subseq [''AAA'', ''ZZZ''] [''AAA'', ''BBB'', ''EEE'', ''ZZZ'']
   \<and> distinct [''AAA'', ''ZZZ'']"
  using rows_from_input_tickers [OF example_batch] by simp

text \<open>
  C5. A ticker whose data is absent or malformed in the download, or whose series is
  empty after cleaning, is skipped: the loop body ends in the \<open>continue\<close> of line 53 or
  in a KeyError, which the handler catches. For the same ticker list and download, the
  loop gives the same result, rows and exception alike, whether it goes through the
  ticker or not; \<open>get_volume_data\<close> returns what the loop returns on the tickers that
  are not skipped; and no row of the output has the ticker.
\<close>

theorem skipped_ticker_contained:
  assumes "skipped tks df t"
  shows "(ticker_body tks df t = Inl KeyError \<or> ticker_body tks df t = Inr None)
       \<and> for_tickers tks df data (xs @ t # ys) = for_tickers tks df data (xs @ ys)
       \<and> (fetch tks = Inr df \<longrightarrow>
            get_volume_data fetch tks =
              (case for_tickers tks df [] (filter (\<lambda>u. \<not> skipped tks df u) tks) of
                 Inl e \<Rightarrow> Inl e | Inr out \<Rightarrow> Inr ([], out))
            \<and> (\<forall>msgs out. get_volume_data fetch tks = Inr (msgs, out) \<longrightarrow>
                  t \<notin> Ticker ` set out))"
proof (intro conjI impI allI)
  show skip: "ticker_body tks df t = Inl KeyError \<or> ticker_body tks df t = Inr None"
    using assms by (rule skipped_outcome)
  have "for_tickers tks df d (t # ys) = for_tickers tks df d ys" for d
    using skip by (rule for_tickers_skip)
  then show "for_tickers tks df data (xs @ t # ys) = for_tickers tks df data (xs @ ys)"
    by (simp add: for_tickers_append split: sum.splits)
next
  assume "fetch tks = Inr df"
  then show "get_volume_data fetch tks =
      (case for_tickers tks df [] (filter (\<lambda>u. \<not> skipped tks df u) tks) of
         Inl e \<Rightarrow> Inl e | Inr out \<Rightarrow> Inr ([], out))"
    by (simp add: get_volume_data_def for_tickers_filter)
next
  fix msgs out
  assume f: "fetch tks = Inr df" and out: "get_volume_data fetch tks = Inr (msgs, out)"
  then have "for_tickers tks df [] tks = Inr out"
    by (auto simp: get_volume_data_def split: sum.splits)
  from for_tickers_rows [OF this]
  have made: "\<forall>row \<in> set out. \<exists>u \<in> set tks. ticker_body tks df u = Inr (Some row)"
    by auto
  show "t \<notin> Ticker ` set out"
  proof
    assume "t \<in> Ticker ` set out"
    then obtain row where row: "row \<in> set out" "Ticker row = t"
      by auto
    with made obtain u where u: "ticker_body tks df u = Inr (Some row)"
      by blast
    then have "Ticker row = u"
      by (simp add: ticker_body_row)
    with row u have "ticker_body tks df t = Inr (Some row)"
      by simp
    with skipped_outcome [OF assms] show False
      by auto
  qed
qed

lemma skipped_bbb: "skipped [''AAA'', ''BBB'', ''EEE'', ''ZZZ''] example_download ''BBB''"
  by (simp add: skipped_def example_selected frame_empty_def dropna_all_def bbb_frame_def bars_def
      ohlcv_def)

theorem skipped_ticker_contained_witness:
  "skipped [''AAA'', ''BBB'', ''EEE'', ''ZZZ''] example_download ''BBB''
   \<and> ticker_body [''AAA'', ''BBB'', ''EEE'', ''ZZZ''] example_download ''BBB'' = Inr None
   \<and> for_tickers [''AAA'', ''BBB'', ''EEE'', ''ZZZ''] example_download [] [''AAA'', ''BBB'', ''ZZZ'']
       = for_tickers [''AAA'', ''BBB'', ''EEE'', ''ZZZ''] example_download [] [''AAA'', ''ZZZ'']
   \<and> get_volume_data (\<lambda>ticker_list. Inr example_download) [''AAA'', ''BBB'', ''EEE'', ''ZZZ'']
       = Inr ([], [aaa_row, zzz_row])
   \<and> ''BBB'' \<notin> Ticker ` set [aaa_row, zzz_row]"
  using skipped_bbb example_batch
    skipped_ticker_contained [OF skipped_bbb, of "[]" "[''AAA'']" "[''ZZZ'']"
      "\<lambda>ticker_list. Inr example_download"]
  by (simp add: body_bbb aaa_row_def zzz_row_def)

subsection \<open>Highlight tiers\<close>

lemma tier_style_inj: "tier_style a = tier_style b \<Longrightarrow> a = b"
  by (cases a; cases b) simp_all

lemma highlight_spike_tier:
  "highlight_spike T val =
     tier_style (if fl_gt val (Fin (T * 2)) then Spike
                 else if fl_gt val (Fin T) then Elevated else Normal)"
  by (simp add: highlight_spike_def highlight_color_def)

text \<open>
  C3. The style of a cell is a function of the relative volume and the threshold \<open>T\<close>
  alone, and it is exactly one of the three tiers: normal when RVol \<le> T, elevated when
  T < RVol \<le> 2T, spike when RVol > 2T; every relative volume that is a number falls in
  one of the three cases. At RVol = 2T the tier is elevated and at RVol = T it is normal.
  The threshold is positive, as the slider's values (1.0 to 5.0) are.
\<close>

theorem tier_classification:
  assumes "0 < T"
  shows "(fl_le val (Fin T) \<longrightarrow> highlight_spike T val = tier_style Normal)
       \<and> (fl_less (Fin T) val \<and> fl_le val (Fin (2 * T)) \<longrightarrow>
            highlight_spike T val = tier_style Elevated)
       \<and> (fl_less (Fin (2 * T)) val \<longrightarrow> highlight_spike T val = tier_style Spike)
       \<and> (val \<noteq> NaN \<longrightarrow> fl_le val (Fin T) \<or> (fl_less (Fin T) val \<and> fl_le val (Fin (2 * T)))
              \<or> fl_less (Fin (2 * T)) val)
       \<and> (\<exists>!t. highlight_spike T val = tier_style t)
       \<and> highlight_spike T (Fin (2 * T)) = tier_style Elevated
       \<and> highlight_spike T (Fin T) = tier_style Normal"
proof -
  have one: "\<exists>!t. highlight_spike T val = tier_style t"
    unfolding highlight_spike_tier by (blast dest: tier_style_inj)
  have rest: "(fl_le val (Fin T) \<longrightarrow> highlight_spike T val = tier_style Normal)
       \<and> (fl_less (Fin T) val \<and> fl_le val (Fin (2 * T)) \<longrightarrow>
            highlight_spike T val = tier_style Elevated)
       \<and> (fl_less (Fin (2 * T)) val \<longrightarrow> highlight_spike T val = tier_style Spike)
       \<and> (val \<noteq> NaN \<longrightarrow> fl_le val (Fin T) \<or> (fl_less (Fin T) val \<and> fl_le val (Fin (2 * T)))
              \<or> fl_less (Fin (2 * T)) val)"
    using assms
    by (cases val) (auto simp: highlight_spike_tier fl_le_def fl_gt_def mult.commute)
  have bounds: "highlight_spike T (Fin (2 * T)) = tier_style Elevated"
      "highlight_spike T (Fin T) = tier_style Normal"
    using assms by (simp_all add: highlight_spike_tier fl_gt_def)
  from one rest bounds show ?thesis
    by blast
qed

theorem tier_classification_witness:
  "highlight_spike (3 / 2) (Fin 1) = tier_style Normal
   \<and> highlight_spike (3 / 2) (Fin (5 / 2)) = tier_style Elevated
   \<and> highlight_spike (3 / 2) (Fin (31 / 10)) = tier_style Spike
   \<and> highlight_spike (3 / 2) (Fin 3) = tier_style Elevated
   \<and> highlight_spike (3 / 2) (Fin (3 / 2)) = tier_style Normal"
proof -
  have T: "(0::rat) < 3 / 2"
    by simp
  show ?thesis
    using tier_classification [OF T, of "Fin 1"] tier_classification [OF T, of "Fin (5 / 2)"]
      tier_classification [OF T, of "Fin (31 / 10)"]
    by (simp add: fl_le_def)
qed

subsection \<open>Ticker parsing\<close>

lemma str_split_not_Nil: "str_split sep s \<noteq> []"
  by (induction s) (auto split: list.splits)

lemma str_split_no_sep: "sep \<notin> set e \<Longrightarrow> str_split sep e = [e]"
  by (induction e) auto

lemma str_split_append_sep:
  "sep \<notin> set e \<Longrightarrow> str_split sep (e @ sep # rest) = e # str_split sep rest"
  by (induction e) (auto split: list.splits)

lemma str_split_join:
  "entries \<noteq> [] \<Longrightarrow> \<forall>e \<in> set entries. sep \<notin> set e \<Longrightarrow>
     str_split sep (str_join sep entries) = entries"
proof (induction sep entries rule: str_join.induct)
  case (1 sep)
  then show ?case by simp
next
  case (2 sep p)
  then show ?case by (simp add: str_split_no_sep)
next
  case (3 sep p q ps)
  then show ?case by (simp add: str_split_append_sep)
qed

lemma str_join_split: "str_join sep (str_split sep s) = s"
proof (induction s)
  case Nil
  show ?case by simp
next
  case (Cons c cs)
  obtain p ps where ps: "str_split sep cs = p # ps"
    using str_split_not_Nil [of sep cs] by (cases "str_split sep cs") auto
  with Cons show ?case
    by (cases ps) auto
qed

lemma str_split_pieces: "e \<in> set (str_split sep s) \<Longrightarrow> sep \<notin> set e"
  by (induction s arbitrary: e) (auto split: if_splits list.splits)

lemma str_strip_parts:
  "\<exists>l r. e = l @ str_strip e @ r \<and> list_all is_space l \<and> list_all is_space r"
proof -
  let ?a = "dropWhile is_space e"
  have "e = takeWhile is_space e @ ?a"
    by simp
  moreover have "rev ?a = takeWhile is_space (rev ?a) @ dropWhile is_space (rev ?a)"
    by simp
  then have "?a = str_strip e @ rev (takeWhile is_space (rev ?a))"
    unfolding str_strip_def by (metis rev_append rev_rev_ident)
  moreover have "list_all is_space (takeWhile is_space e)"
    "list_all is_space (rev (takeWhile is_space (rev ?a)))"
    by (auto simp: list_all_iff dest: set_takeWhileD)
  ultimately show ?thesis
    by (metis append_assoc)
qed

lemma str_strip_ends:
  "str_strip e \<noteq> [] \<Longrightarrow> \<not> is_space (hd (str_strip e)) \<and> \<not> is_space (last (str_strip e))"
proof -
  assume ne: "str_strip e \<noteq> []"
  let ?a = "dropWhile is_space e"
  let ?b = "dropWhile is_space (rev ?a)"
  have b: "?b \<noteq> []"
    using ne by (simp add: str_strip_def)
  then have l: "\<not> is_space (hd ?b)"
    by (rule hd_dropWhile)
  have "last (str_strip e) = hd ?b"
    using b by (simp add: str_strip_def last_rev)
  with l have last: "\<not> is_space (last (str_strip e))"
    by simp
  have a: "?a \<noteq> []"
    using b by (metis dropWhile.simps(1) rev.simps(1))
  then have ha: "\<not> is_space (hd ?a)"
    by (rule hd_dropWhile)
  have "rev ?a = takeWhile is_space (rev ?a) @ ?b"
    by simp
  then have "?a = rev ?b @ rev (takeWhile is_space (rev ?a))"
    by (metis rev_append rev_rev_ident)
  moreover have "rev ?b \<noteq> []"
    using b by simp
  ultimately have "hd ?a = hd (rev ?b)"
    by (metis hd_append2)
  with ha have "\<not> is_space (hd (str_strip e))"
    by (simp add: str_strip_def)
  with last show ?thesis
    by simp
qed

lemma char_upper_cases:
  "char_upper c = (if 97 \<le> (of_char c :: nat) \<and> (of_char c :: nat) \<le> 122
                   then char_of ((of_char c :: nat) - 32) else c)"
  by (simp add: char_upper_def Let_def)

lemma char_upper_letter:
  "97 \<le> (of_char c :: nat) \<Longrightarrow> (of_char c :: nat) \<le> 122 \<Longrightarrow>
     (of_char (char_upper c) :: nat) = of_char c - 32"
  by (simp add: char_upper_cases)

lemma char_upper_other:
  "\<not> (97 \<le> (of_char c :: nat) \<and> (of_char c :: nat) \<le> 122) \<Longrightarrow> char_upper c = c"
  by (auto simp: char_upper_cases)

text \<open>
  C9. The ticker string is, in exactly one way, a list of entries without commas joined
  by commas. The parsed list holds, in the order of the entries, each entry trimmed and
  upper-cased, without the entries that are empty once trimmed. Trimming an entry removes
  white space at both ends and nothing else, and leaves no white space at either end;
  upper-casing replaces each letter \<open>a\<close> to \<open>z\<close> by its capital and changes nothing
  else.
\<close>

theorem tickers_parsed:
  assumes "ascii_text ticker_input"
  shows "(\<exists>!entries. entries \<noteq> [] \<and> (\<forall>e \<in> set entries. CHR '','' \<notin> set e)
            \<and> str_join (CHR '','') entries = ticker_input)
       \<and> (\<forall>entries. entries \<noteq> [] \<and> (\<forall>e \<in> set entries. CHR '','' \<notin> set e)
              \<and> str_join (CHR '','') entries = ticker_input \<longrightarrow>
            tickers ticker_input = map str_upper (filter (\<lambda>e. e \<noteq> []) (map str_strip entries)))
       \<and> (\<forall>e. \<exists>l r. e = l @ str_strip e @ r \<and> list_all is_space l \<and> list_all is_space r
              \<and> (str_strip e \<noteq> [] \<longrightarrow>
                    \<not> is_space (hd (str_strip e)) \<and> \<not> is_space (last (str_strip e))))
       \<and> (\<forall>e. length (str_upper e) = length e
              \<and> (\<forall>i < length e.
                    if 97 \<le> (of_char (e ! i) :: nat) \<and> (of_char (e ! i) :: nat) \<le> 122
                    then (of_char (str_upper e ! i) :: nat) = of_char (e ! i) - 32
                    else str_upper e ! i = e ! i))"
proof (intro conjI allI impI)
  show "\<exists>!entries. entries \<noteq> [] \<and> (\<forall>e \<in> set entries. CHR '','' \<notin> set e)
      \<and> str_join (CHR '','') entries = ticker_input"
  proof (rule ex1I [of _ "str_split (CHR '','') ticker_input"])
    show "str_split (CHR '','') ticker_input \<noteq> []
        \<and> (\<forall>e \<in> set (str_split (CHR '','') ticker_input). CHR '','' \<notin> set e)
        \<and> str_join (CHR '','') (str_split (CHR '','') ticker_input) = ticker_input"
      using str_split_not_Nil [of "CHR '',''" ticker_input]
        str_join_split [of "CHR '',''" ticker_input]
        str_split_pieces [of _ "CHR '',''" ticker_input]
      by blast
  next
    fix entries
    assume "entries \<noteq> [] \<and> (\<forall>e \<in> set entries. CHR '','' \<notin> set e)
        \<and> str_join (CHR '','') entries = ticker_input"
    then show "entries = str_split (CHR '','') ticker_input"
      using str_split_join [of entries "CHR '',''"] by auto
  qed
next
  fix entries
  assume e: "entries \<noteq> [] \<and> (\<forall>e \<in> set entries. CHR '','' \<notin> set e)
      \<and> str_join (CHR '','') entries = ticker_input"
  then have "str_split (CHR '','') ticker_input = entries"
    using str_split_join [of entries "CHR '',''"] by blast
  then show "tickers ticker_input = map str_upper (filter (\<lambda>e. e \<noteq> []) (map str_strip entries))"
    by (simp add: tickers_def filter_map o_def)
next
  fix e
  from str_strip_parts [of e] str_strip_ends [of e]
  show "\<exists>l r. e = l @ str_strip e @ r \<and> list_all is_space l \<and> list_all is_space r
      \<and> (str_strip e \<noteq> [] \<longrightarrow>
            \<not> is_space (hd (str_strip e)) \<and> \<not> is_space (last (str_strip e)))"
    by blast
next
  fix e
  show "length (str_upper e) = length e"
    by (simp add: str_upper_def)
next
  fix e :: string and i
  assume "i < length e"
  then show "if 97 \<le> (of_char (e ! i) :: nat) \<and> (of_char (e ! i) :: nat) \<le> 122
      then (of_char (str_upper e ! i) :: nat) = of_char (e ! i) - 32
      else str_upper e ! i = e ! i"
    by (simp add: str_upper_def char_upper_letter char_upper_other)
qed

lemma tickers_example: "tickers ''amd, nvda ,,Tsla '' = [''AMD'', ''NVDA'', ''TSLA'']"
  by code_simp

theorem tickers_parsed_witness:
  "ascii_text ''amd, nvda ,,Tsla ''
   \<and> tickers ''amd, nvda ,,Tsla '' =
       map str_upper (filter (\<lambda>e. e \<noteq> []) (map str_strip [''amd'', '' nvda '', [], ''Tsla '']))
   \<and> tickers ''amd, nvda ,,Tsla '' = [''AMD'', ''NVDA'', ''TSLA'']"
proof -
  have a: "ascii_text ''amd, nvda ,,Tsla ''"
    by (simp add: ascii_text_def)
  have "tickers ''amd, nvda ,,Tsla '' =
       map str_upper (filter (\<lambda>e. e \<noteq> []) (map str_strip [''amd'', '' nvda '', [], ''Tsla '']))"
  proof (rule tickers_parsed [OF a, THEN conjunct2, THEN conjunct1, rule_format])
    show "[''amd'', '' nvda '', [], ''Tsla ''] \<noteq> []
        \<and> (\<forall>e \<in> set [''amd'', '' nvda '', [], ''Tsla '']. CHR '','' \<notin> set e)
        \<and> str_join (CHR '','') [''amd'', '' nvda '', [], ''Tsla ''] = ''amd, nvda ,,Tsla ''"
      by simp
  qed
  with a tickers_example show ?thesis
    by simp
qed

subsection \<open>Sorting\<close>



















end
